theory Spec2Isabelle
  imports Main
begin

section \<open>JavaScript values\<close>

text \<open>
  The handler of \<^verbatim>\<open>api/auth.js\<close> receives the parsed request body and the parsed
  answers of the key-value store; both are JSON values, and a property that is missing
  reads as \<^verbatim>\<open>undefined\<close>. An object is the association list of its own properties.
  Numbers are the integer-valued ones (below \<open>10^21\<close>, where the rendering is the
  decimal one); nothing in the handler computes with a number.
\<close>

datatype jsval =
    JUndefined
  | JNull
  | JBool bool
  | JNum int
  | JStr string
  | JArr "jsval list"
  | JObj "(string \<times> jsval) list"

text \<open>A thrown value: the handler only ever reads its \<^verbatim>\<open>message\<close>.\<close>

datatype exn = Error string | TypeError string

fun message :: "exn \<Rightarrow> string" where
  "message (Error m) = m"
| "message (TypeError m) = m"

text \<open>\<^verbatim>\<open>!v\<close> is \<open>\<not> truthy v\<close>: the falsy values are undefined, null, false, 0 and the empty string.\<close>

fun truthy :: "jsval \<Rightarrow> bool" where
  "truthy JUndefined = False"
| "truthy JNull = False"
| "truthy (JBool b) = b"
| "truthy (JNum n) = (n \<noteq> 0)"
| "truthy (JStr s) = (s \<noteq> [])"
| "truthy (JArr xs) = True"
| "truthy (JObj kvs) = True"

text \<open>
  \<^verbatim>\<open>v.k\<close>, and one property of a destructuring pattern \<^verbatim>\<open>const { k } = v\<close>: reading
  a property of undefined or null throws a TypeError. The keys the handler reads
  (action, username, password, error, result, userId, hashedPassword) are not properties
  of a string, a number, a boolean or an array, nor inherited ones of an object. The
  wording of the engine's message is shortened.
\<close>

fun get_prop :: "jsval \<Rightarrow> string \<Rightarrow> exn + jsval" where
  "get_prop JUndefined k = Inl (TypeError ''Cannot read properties of undefined'')"
| "get_prop JNull k = Inl (TypeError ''Cannot read properties of null'')"
| "get_prop (JObj kvs) k = Inr (case map_of kvs k of None \<Rightarrow> JUndefined | Some v \<Rightarrow> v)"
| "get_prop v k = Inr JUndefined"

definition digit_char :: "nat \<Rightarrow> char" where
  "digit_char d = ''0123456789'' ! (d mod 10)"

fun digits_of :: "nat \<Rightarrow> string" where
  "digits_of n = (if n < 10 then [digit_char n] else digits_of (n div 10) @ [digit_char n])"

declare digits_of.simps [simp del]

definition number_to_string :: "int \<Rightarrow> string" where
  "number_to_string i = (if i < 0 then CHR ''-'' # digits_of (nat (- i)) else digits_of (nat i))"

fun collect :: "(exn + string) list \<Rightarrow> exn + string list" where
  "collect [] = Inr []"
| "collect (Inl e # rs) = Inl e"
| "collect (Inr s # rs) = (case collect rs of Inl e \<Rightarrow> Inl e | Inr ss \<Rightarrow> Inr (s # ss))"

fun join_comma :: "string list \<Rightarrow> string" where
  "join_comma [] = []"
| "join_comma [s] = s"
| "join_comma (s # ss) = s @ '','' @ join_comma ss"

text \<open>
  ToString, as a template literal \<^verbatim>\<open>`${v}`\<close> and \<^verbatim>\<open>new Error(v)\<close> apply it. An array
  joins its elements with commas, undefined and null elements being empty; a parsed object
  renders as \<^verbatim>\<open>[object Object]\<close>, unless an own property \<^verbatim>\<open>toString\<close> (never
  callable in a JSON value) hides the inherited method, and then the conversion throws.
\<close>

fun to_string :: "jsval \<Rightarrow> exn + string" where
  "to_string JUndefined = Inr ''undefined''"
| "to_string JNull = Inr ''null''"
| "to_string (JBool b) = Inr (if b then ''true'' else ''false'')"
| "to_string (JNum n) = Inr (number_to_string n)"
| "to_string (JStr s) = Inr s"
| "to_string (JArr xs) =
     (case collect (map (\<lambda>x. if x = JUndefined \<or> x = JNull then Inr [] else to_string x) xs) of
        Inl e \<Rightarrow> Inl e
      | Inr ss \<Rightarrow> Inr (join_comma ss))"
| "to_string (JObj kvs) =
     (if ''toString'' \<in> set (map fst kvs)
      then Inl (TypeError ''Cannot convert object to primitive value'')
      else Inr ''[object Object]'')"

section \<open>The environment of the handler\<close>

text \<open>
  The module reads three settings from \<^verbatim>\<open>process.env\<close> when it is loaded; a setting
  that is not set reads as \<^verbatim>\<open>undefined\<close>, and a template literal renders it as the
  nine letters \<^verbatim>\<open>undefined\<close>.
\<close>

record config =
  KV_REST_API_URL :: "string option"
  KV_REST_API_TOKEN :: "string option"
  JWT_SECRET :: "string option"

fun template :: "string option \<Rightarrow> string" where
  "template None = ''undefined''"
| "template (Some v) = v"

text \<open>
  \<^verbatim>\<open>fetch(url, options)\<close>: the body of the request is the JSON text of a value, written
  here as that value. The answer carries \<^verbatim>\<open>ok\<close> and what \<^verbatim>\<open>response.json()\<close>
  gives: the parsed value, or the error of a body that does not parse.
\<close>

record fetch_options =
  fo_method :: string
  fo_headers :: "(string \<times> string) list"
  fo_body :: "jsval option"

record http_response =
  ok :: bool
  json :: "exn + jsval"

text \<open>
  What the handler calls and does not define: \<^verbatim>\<open>fetch\<close> (the store behind it),
  \<^verbatim>\<open>bcrypt.hash\<close>, \<^verbatim>\<open>bcrypt.compare\<close>, \<^verbatim>\<open>crypto.randomUUID\<close> and
  \<^verbatim>\<open>jwt.sign\<close>. They are parameters of the model. The world \<open>'w\<close> is
  everything they depend on and change: the contents of the store, the source of
  randomness, the clock. Each of them may throw, except \<^verbatim>\<open>randomUUID\<close>. The
  comparison is a function of its two arguments. The token that \<^verbatim>\<open>jwt.sign\<close>
  returns is a string; it is a JavaScript value here, so that a model of the signer can
  write a token as the structure that the string encodes.
\<close>

record 'w env =
  fetch :: "'w \<Rightarrow> string \<Rightarrow> fetch_options \<Rightarrow> (exn + http_response) \<times> 'w"
  bcrypt_hash :: "'w \<Rightarrow> jsval \<Rightarrow> nat \<Rightarrow> (exn + string) \<times> 'w"
  bcrypt_compare :: "jsval \<Rightarrow> jsval \<Rightarrow> exn + bool"
  randomUUID :: "'w \<Rightarrow> string \<times> 'w"
  jwt_sign :: "'w \<Rightarrow> jsval \<Rightarrow> string option \<Rightarrow> jsval \<Rightarrow> (exn + jsval) \<times> 'w"

text \<open>
  Every call that leaves the handler is recorded, with its arguments and its result, in
  the order of the calls; \<^verbatim>\<open>console.error\<close> is one of them.
\<close>

datatype event =
    EvFetch string fetch_options "exn + http_response"
  | EvHash jsval nat "exn + string"
  | EvUUID string
  | EvCompare jsval jsval "exn + bool"
  | EvSign jsval "string option" jsval "exn + jsval"
  | EvLog exn

record 'w st =
  world :: 'w
  trace :: "event list"

text \<open>\<^verbatim>\<open>res.status(code).json(value)\<close>.\<close>

record reply =
  status :: nat
  body :: jsval

datatype outcome = Responded reply | Threw exn

section \<open>The handler\<close>

text \<open>\<^verbatim>\<open>kvRequest(method, path, body = null)\<close>, lines 13 to 34.\<close>

definition kvRequest ::
  "'w env \<Rightarrow> config \<Rightarrow> string \<Rightarrow> string \<Rightarrow> jsval \<Rightarrow> 'w st \<Rightarrow> (exn + jsval) \<times> 'w st" where
  "kvRequest env cfg method path b s =
     (let headers = [(''Authorization'', ''Bearer '' @ template (KV_REST_API_TOKEN cfg)),
                     (''Content-Type'', ''application/json'')];
          url = template (KV_REST_API_URL cfg) @ path;
          options = \<lparr>fo_method = method, fo_headers = headers,
                     fo_body = (if truthy b then Some b else None)\<rparr>
      in case fetch env (world s) url options of
           (r, w') \<Rightarrow>
             (let s' = \<lparr>world = w', trace = trace s @ [EvFetch url options r]\<rparr>
              in case r of
                   Inl e \<Rightarrow> (Inl e, s')
                 | Inr response \<Rightarrow>
                     (case json response of
                        Inl e \<Rightarrow> (Inl e, s')
                      | Inr data \<Rightarrow>
                          if \<not> ok response then
                            (case get_prop data ''error'' of
                               Inl e \<Rightarrow> (Inl e, s')
                             | Inr err \<Rightarrow>
                                 (case to_string (if truthy err then err
                                                  else JStr ''KV operation failed'') of
                                    Inl e \<Rightarrow> (Inl e, s')
                                  | Inr m \<Rightarrow> (Inl (Error m), s')))
                          else (Inr data, s'))))"

definition error_body :: "string \<Rightarrow> jsval" where
  "error_body m = JObj [(''error'', JStr m)]"

text \<open>The register branch, lines 50 to 68.\<close>

definition register ::
  "'w env \<Rightarrow> config \<Rightarrow> jsval \<Rightarrow> jsval \<Rightarrow> 'w st \<Rightarrow> (exn + reply) \<times> 'w st" where
  "register env cfg username password s =
     (case to_string username of
        Inl e \<Rightarrow> (Inl e, s)
      | Inr name \<Rightarrow>
          (let userKey = ''users:'' @ name
           in case kvRequest env cfg ''GET'' (''/'' @ userKey) JNull s of
                (Inl e, s1) \<Rightarrow> (Inl e, s1)
              | (Inr existingUser, s1) \<Rightarrow>
                  (case get_prop existingUser ''result'' of
                     Inl e \<Rightarrow> (Inl e, s1)
                   | Inr r \<Rightarrow>
                       if truthy r then
                         (Inr \<lparr>status = 409, body = error_body ''User already exists.''\<rparr>, s1)
                       else
                         (case bcrypt_hash env (world s1) password 10 of
                            (h, w2) \<Rightarrow>
                              (let s2 = \<lparr>world = w2, trace = trace s1 @ [EvHash password 10 h]\<rparr>
                               in case h of
                                    Inl e \<Rightarrow> (Inl e, s2)
                                  | Inr hashedPassword \<Rightarrow>
                                      (case randomUUID env w2 of
                                         (userId, w3) \<Rightarrow>
                                           (let s3 = \<lparr>world = w3, trace = trace s2 @ [EvUUID userId]\<rparr>
                                            in case kvRequest env cfg ''SET'' (''/'' @ userKey)
                                                      (JObj [(''userId'', JStr userId),
                                                             (''hashedPassword'', JStr hashedPassword)]) s3 of
                                                 (Inl e, s4) \<Rightarrow> (Inl e, s4)
                                               | (Inr _, s4) \<Rightarrow>
                                                   (Inr \<lparr>status = 201,
                                                         body = JObj [(''message'', JStr ''User registered successfully.''),
                                                                      (''userId'', JStr userId)]\<rparr>, s4))))))))"

text \<open>The login branch, lines 70 to 92.\<close>

definition login ::
  "'w env \<Rightarrow> config \<Rightarrow> jsval \<Rightarrow> jsval \<Rightarrow> 'w st \<Rightarrow> (exn + reply) \<times> 'w st" where
  "login env cfg username password s =
     (case to_string username of
        Inl e \<Rightarrow> (Inl e, s)
      | Inr name \<Rightarrow>
          (let userKey = ''users:'' @ name
           in case kvRequest env cfg ''GET'' (''/'' @ userKey) JNull s of
                (Inl e, s1) \<Rightarrow> (Inl e, s1)
              | (Inr userData, s1) \<Rightarrow>
                  (case get_prop userData ''result'' of
                     Inl e \<Rightarrow> (Inl e, s1)
                   | Inr r \<Rightarrow>
                       if \<not> truthy r then
                         (Inr \<lparr>status = 401, body = error_body ''Invalid username or password.''\<rparr>, s1)
                       else
                         (case get_prop r ''userId'' of
                            Inl e \<Rightarrow> (Inl e, s1)
                          | Inr userId \<Rightarrow>
                         (case get_prop r ''hashedPassword'' of
                            Inl e \<Rightarrow> (Inl e, s1)
                          | Inr hashedPassword \<Rightarrow>
                              (let c = bcrypt_compare env password hashedPassword;
                                   s2 = \<lparr>world = world s1,
                                         trace = trace s1 @ [EvCompare password hashedPassword c]\<rparr>
                               in case c of
                                    Inl e \<Rightarrow> (Inl e, s2)
                                  | Inr isPasswordValid \<Rightarrow>
                                      if \<not> isPasswordValid then
                                        (Inr \<lparr>status = 401,
                                              body = error_body ''Invalid username or password.''\<rparr>, s2)
                                      else
                                        (let payload = JObj [(''userId'', userId), (''username'', username)];
                                             options = JObj [(''expiresIn'', JStr ''1h'')]
                                         in case jwt_sign env (world s2) payload (JWT_SECRET cfg) options of
                                              (t, w3) \<Rightarrow>
                                                (let s3 = \<lparr>world = w3,
                                                           trace = trace s2 @ [EvSign payload (JWT_SECRET cfg) options t]\<rparr>
                                                 in case t of
                                                      Inl e \<Rightarrow> (Inl e, s3)
                                                    | Inr token \<Rightarrow>
                                                        (Inr \<lparr>status = 200,
                                                              body = JObj [(''message'', JStr ''Login successful.''),
                                                                           (''token'', token),
                                                                           (''userId'', userId)]\<rparr>, s3)))))))))"

text \<open>The body of the \<^verbatim>\<open>try\<close> block, lines 50 to 96.\<close>

definition dispatch ::
  "'w env \<Rightarrow> config \<Rightarrow> jsval \<Rightarrow> jsval \<Rightarrow> jsval \<Rightarrow> 'w st \<Rightarrow> (exn + reply) \<times> 'w st" where
  \<open>dispatch env cfg action username password s =
     (if action = JStr ''register'' then register env cfg username password s
      else if action = JStr ''login'' then login env cfg username password s
      else (Inr \<lparr>status = 400,
                 body = error_body ''Invalid action specified. Use "register" or "login".''\<rparr>, s))\<close>

text \<open>\<^verbatim>\<open>const { action, username, password } = req.body\<close>, line 43.\<close>

definition destructure :: "jsval \<Rightarrow> exn + (jsval \<times> jsval \<times> jsval)" where
  "destructure b =
     (case get_prop b ''action'' of
        Inl e \<Rightarrow> Inl e
      | Inr action \<Rightarrow>
          (case get_prop b ''username'' of
             Inl e \<Rightarrow> Inl e
           | Inr username \<Rightarrow>
               (case get_prop b ''password'' of
                  Inl e \<Rightarrow> Inl e
                | Inr password \<Rightarrow> Inr (action, username, password))))"

record request =
  req_method :: string
  req_body :: jsval

text \<open>
  The exported handler, lines 37 to 101. The destructuring of line 43 stands before the
  \<^verbatim>\<open>try\<close>: what it throws leaves the handler. What the \<^verbatim>\<open>try\<close> block throws is
  logged and answered with 500.
\<close>

definition handler :: "'w env \<Rightarrow> config \<Rightarrow> request \<Rightarrow> 'w st \<Rightarrow> outcome \<times> 'w st" where
  "handler env cfg req s =
     (if req_method req \<noteq> ''POST'' then
        (Responded \<lparr>status = 405, body = error_body ''Method Not Allowed''\<rparr>, s)
      else
        (case destructure (req_body req) of
           Inl e \<Rightarrow> (Threw e, s)
         | Inr (action, username, password) \<Rightarrow>
             if \<not> truthy username \<or> \<not> truthy password then
               (Responded \<lparr>status = 400, body = error_body ''Username and password are required.''\<rparr>, s)
             else
               (case dispatch env cfg action username password s of
                  (Inr r, s') \<Rightarrow> (Responded r, s')
                | (Inl error, s') \<Rightarrow>
                    (Responded \<lparr>status = 500,
                                body = JObj [(''error'', JStr ''Internal server error during authentication.''),
                                             (''details'', JStr (message error))]\<rparr>,
                     \<lparr>world = world s', trace = trace s' @ [EvLog error]\<rparr>))))"

text \<open>
  The address and the options that \<^verbatim>\<open>kvRequest\<close> hands to \<^verbatim>\<open>fetch\<close>, and what it
  makes of the answer, named for the statements below.
\<close>

definition kv_url :: "config \<Rightarrow> string \<Rightarrow> string" where
  "kv_url cfg path = template (KV_REST_API_URL cfg) @ path"

definition kv_options :: "config \<Rightarrow> string \<Rightarrow> jsval \<Rightarrow> fetch_options" where
  "kv_options cfg method b =
     \<lparr>fo_method = method,
      fo_headers = [(''Authorization'', ''Bearer '' @ template (KV_REST_API_TOKEN cfg)),
                    (''Content-Type'', ''application/json'')],
      fo_body = (if truthy b then Some b else None)\<rparr>"

definition user_path :: "string \<Rightarrow> string" where
  "user_path name = ''/users:'' @ name"

definition kv_result :: "exn + http_response \<Rightarrow> exn + jsval" where
  "kv_result r =
     (case r of
        Inl e \<Rightarrow> Inl e
      | Inr response \<Rightarrow>
          (case json response of
             Inl e \<Rightarrow> Inl e
           | Inr data \<Rightarrow>
               if \<not> ok response then
                 (case get_prop data ''error'' of
                    Inl e \<Rightarrow> Inl e
                  | Inr err \<Rightarrow>
                      (case to_string (if truthy err then err else JStr ''KV operation failed'') of
                         Inl e \<Rightarrow> Inl e
                       | Inr m \<Rightarrow> Inl (Error m)))
               else Inr data))"

definition log_event :: "event \<Rightarrow> 'w st \<Rightarrow> 'w \<Rightarrow> 'w st" where
  "log_event ev s w = \<lparr>world = w, trace = trace s @ [ev]\<rparr>"

definition required_reply :: reply where
  "required_reply = \<lparr>status = 400, body = error_body ''Username and password are required.''\<rparr>"

definition invalid_action_reply :: reply where
  \<open>invalid_action_reply =
     \<lparr>status = 400, body = error_body (''Invalid action specified'' @ ''. Use "register" or "login".'')\<rparr>\<close>

definition post :: "jsval \<Rightarrow> request" where
  "post b = \<lparr>req_method = ''POST'', req_body = b\<rparr>"

definition credentials :: "jsval \<Rightarrow> jsval \<Rightarrow> jsval \<Rightarrow> jsval" where
  "credentials action username password =
     JObj [(''action'', action), (''username'', username), (''password'', password)]"

section \<open>The token issuer\<close>

text \<open>
  Modelled from the spec: the Token Issuer of section 4.3, which the code takes from the
  jsonwebtoken package and which is not under src/. A token is a signed structure whose
  payload holds what the caller embeds, the time of issue and the expiry,
  \<open>expiresAt = issuedAt + 1 hour\<close> for the policy \<^verbatim>\<open>expiresIn: '1h'\<close> that the
  login passes. It is written as the structure it encodes, and the signature as the key
  that made it. The signing key is configuration; without one no token is issued.
  Times are in seconds.
\<close>

definition expires_in :: "jsval \<Rightarrow> int option" where
  "expires_in options =
     (if get_prop options ''expiresIn'' = Inr (JStr ''1h'') then Some 3600 else None)"

definition issue :: "int \<Rightarrow> string \<Rightarrow> (string \<times> jsval) list \<Rightarrow> int \<Rightarrow> jsval" where
  "issue now secret claims ttl =
     JObj [(''payload'', JObj (claims @ [(''issuedAt'', JNum now), (''expiresAt'', JNum (now + ttl))])),
           (''signature'', JStr secret)]"

definition issuer_sign :: "int \<Rightarrow> jsval \<Rightarrow> string option \<Rightarrow> jsval \<Rightarrow> exn + jsval" where
  "issuer_sign now payload secret options =
     (case secret of
        None \<Rightarrow> Inl (Error ''secretOrPrivateKey must have a value'')
      | Some k \<Rightarrow>
          (case expires_in options of
             None \<Rightarrow> Inl (Error ''expiresIn is not a supported time span'')
           | Some ttl \<Rightarrow>
               (case payload of
                  JObj claims \<Rightarrow> Inr (issue now k claims ttl)
                | _ \<Rightarrow> Inl (Error ''payload is not an object''))))"

text \<open>
  Modelled from the spec: \<open>verify(token)\<close> of section 4.3, which gives the embedded
  \<open>{userId, username}\<close>, and fails when the signature does not match, the payload is
  malformed, or \<open>now > expiresAt\<close>.
\<close>

definition issuer_verify :: "int \<Rightarrow> string \<Rightarrow> jsval \<Rightarrow> (jsval \<times> jsval) option" where
  "issuer_verify now secret token =
     (if get_prop token ''signature'' \<noteq> Inr (JStr secret) then None
      else
        (case get_prop token ''payload'' of
           Inr (JObj claims) \<Rightarrow>
             (case (map_of claims ''userId'', map_of claims ''username'', map_of claims ''expiresAt'') of
                (Some userId, Some username, Some (JNum expiresAt)) \<Rightarrow>
                  if now > expiresAt then None else Some (userId, username)
              | _ \<Rightarrow> None)
         | _ \<Rightarrow> None))"

section \<open>An environment to run the handler in\<close>

subsection \<open>The key-value store\<close>

text \<open>
  Modelled from the spec: the key-value store of section 4.1, a remote service that is not
  under src/. \<open>get(key)\<close> gives the value or absent, \<open>set(key, value)\<close> succeeds, and
  a get after a set on the same key observes the written value. It answers as the source
  expects the store to (\<^verbatim>\<open>{ result: value }\<close> or \<^verbatim>\<open>{ result: null }\<close>), and keys
  a value by the address of the request.
\<close>

record mem_world =
  kv :: "(string \<times> jsval) list"
  salts :: nat
  uuids :: nat
  clock :: int

definition mem_fetch ::
  "mem_world \<Rightarrow> string \<Rightarrow> fetch_options \<Rightarrow> (exn + http_response) \<times> mem_world" where
  "mem_fetch w url options =
     (if fo_method options = ''GET'' then
        (Inr \<lparr>ok = True,
              json = Inr (JObj [(''result'', case map_of (kv w) url of None \<Rightarrow> JNull | Some v \<Rightarrow> v)])\<rparr>, w)
      else if fo_method options = ''SET'' then
        (case fo_body options of
           None \<Rightarrow> (Inr \<lparr>ok = False, json = Inr (JObj [(''error'', JStr ''ERR no value'')])\<rparr>, w)
         | Some v \<Rightarrow> (Inr \<lparr>ok = True, json = Inr (JObj [(''result'', JStr ''OK'')])\<rparr>,
                       w\<lparr>kv := (url, v) # kv w\<rparr>))
      else (Inr \<lparr>ok = False, json = Inr (JObj [(''error'', JStr ''ERR unknown command'')])\<rparr>, w))"

subsection \<open>The credential hasher\<close>

text \<open>
  Modelled from the spec: the Credential Hasher of section 4.2, which the code takes from
  the bcryptjs package and which is not under src/. \<open>hash(plaintext)\<close> produces a
  digest that embeds its own salt; \<open>verify(plaintext, digest)\<close> recomputes with the
  salt embedded in the digest and compares, and is false on any mismatch, also for a
  malformed digest. The salted one-way function is a parameter \<open>f\<close> of the model, and
  nothing below depends on which one it is. Each call of \<open>hash\<close> takes a fresh salt:
  the source of salts is a counter in the world, which does not repeat. The work factor
  costs time and does not show in the digest. Arguments that are not strings are refused.
\<close>

definition digest :: "(string \<Rightarrow> string \<Rightarrow> string) \<Rightarrow> string \<Rightarrow> string \<Rightarrow> string" where
  "digest f salt plaintext = salt @ ''$'' @ f salt plaintext"

definition hasher_hash ::
  "(string \<Rightarrow> string \<Rightarrow> string) \<Rightarrow> mem_world \<Rightarrow> jsval \<Rightarrow> nat \<Rightarrow> (exn + string) \<times> mem_world" where
  "hasher_hash f w p rounds =
     (case p of
        JStr plaintext \<Rightarrow>
          (Inr (digest f (digits_of (salts w)) plaintext), w\<lparr>salts := Suc (salts w)\<rparr>)
      | _ \<Rightarrow> (Inl (Error ''Illegal arguments''), w))"

definition hasher_verify :: "(string \<Rightarrow> string \<Rightarrow> string) \<Rightarrow> jsval \<Rightarrow> jsval \<Rightarrow> exn + bool" where
  "hasher_verify f p h =
     (case p of
        JStr plaintext \<Rightarrow>
          (case h of
             JStr d \<Rightarrow> Inr (d = digest f (takeWhile (\<lambda>c. c \<noteq> CHR ''$'') d) plaintext)
           | _ \<Rightarrow> Inl (Error ''Illegal arguments''))
      | _ \<Rightarrow> Inl (Error ''Illegal arguments''))"

subsection \<open>The example environment\<close>

text \<open>
  Stand-ins with no cryptographic content, to run the handler on examples: a one-way
  function that returns the plaintext, and identifiers that count.
\<close>

definition plain :: "string \<Rightarrow> string \<Rightarrow> string" where
  "plain salt plaintext = plaintext"

definition example_uuid :: "mem_world \<Rightarrow> string \<times> mem_world" where
  "example_uuid w = (''user-'' @ digits_of (uuids w), w\<lparr>uuids := Suc (uuids w)\<rparr>)"

definition mem_env :: "mem_world env" where
  "mem_env =
     \<lparr>fetch = mem_fetch,
      bcrypt_hash = hasher_hash plain,
      bcrypt_compare = hasher_verify plain,
      randomUUID = example_uuid,
      jwt_sign = (\<lambda>w payload secret options. (issuer_sign (clock w) payload secret options, w))\<rparr>"

definition empty_world :: mem_world where
  "empty_world = \<lparr>kv = [], salts = 0, uuids = 0, clock = 1000\<rparr>"

definition start :: "mem_world st" where
  "start = \<lparr>world = empty_world, trace = []\<rparr>"

definition configured :: config where
  "configured =
     \<lparr>KV_REST_API_URL = Some ''https://kv.example'',
      KV_REST_API_TOKEN = Some ''store-token'',
      JWT_SECRET = Some ''signing-key''\<rparr>"

definition unconfigured :: config where
  "unconfigured = \<lparr>KV_REST_API_URL = None, KV_REST_API_TOKEN = None, JWT_SECRET = None\<rparr>"

text \<open>
  The values sent to the store in a history of calls, each with the address it was sent
  to, and the last one sent to an address. Only a request that carries a body sends one;
  the handler's \<^verbatim>\<open>GET\<close> requests carry none.
\<close>

fun writes :: "event list \<Rightarrow> (string \<times> jsval) list" where
  "writes [] = []"
| "writes (EvFetch url options r # evs) =
     (case fo_body options of None \<Rightarrow> writes evs | Some v \<Rightarrow> (url, v) # writes evs)"
| "writes (ev # evs) = writes evs"

definition last_written :: "event list \<Rightarrow> string \<Rightarrow> jsval option" where
  "last_written evs url = map_of (rev (writes evs)) url"

text \<open>
  The scenario of section 8 of the spec: alice, registered with the password s3cret, in
  the environment above.
\<close>

definition alice_record :: jsval where
  "alice_record = JObj [(''userId'', JStr ''user-0''), (''hashedPassword'', JStr ''0$s3cret'')]"

definition registered :: "mem_world st" where
  "registered =
     \<lparr>world = \<lparr>kv = [(''https://kv.example/users:alice'', alice_record)],
               salts = 1, uuids = 1, clock = 1000\<rparr>,
      trace = []\<rparr>"

definition alice :: "string \<Rightarrow> string \<Rightarrow> request" where
  "alice action password = post (credentials (JStr action) (JStr ''alice'') (JStr password))"

section \<open>Facts about the helpers\<close>

lemma kvRequest_eq:
  "kvRequest env cfg method path b s =
     (case fetch env (world s) (kv_url cfg path) (kv_options cfg method b) of
        (r, w') \<Rightarrow>
          (kv_result r, log_event (EvFetch (kv_url cfg path) (kv_options cfg method b) r) s w'))"
  by (simp add: kvRequest_def kv_url_def kv_options_def kv_result_def log_event_def Let_def
      split: prod.splits sum.splits)

lemma kv_result_ok:
  "ok response \<Longrightarrow> json response = Inr data \<Longrightarrow> kv_result (Inr response) = Inr data"
  by (simp add: kv_result_def)

lemma destructure_Inr:
  "destructure b = Inr (a, u, p) \<longleftrightarrow>
     b \<noteq> JUndefined \<and> b \<noteq> JNull \<and> get_prop b ''action'' = Inr a \<and>
     get_prop b ''username'' = Inr u \<and> get_prop b ''password'' = Inr p"
  by (cases b) (auto simp: destructure_def split: sum.splits)

lemma destructure_credentials:
  "destructure (credentials a u p) = Inr (a, u, p)"
  by (simp add: destructure_def credentials_def)

lemma handler_post:
  assumes "req_method req = ''POST''"
    and "destructure (req_body req) = Inr (action, username, password)"
    and "truthy username" and "truthy password"
  shows "handler env cfg req s =
     (case dispatch env cfg action username password s of
        (Inr r, s') \<Rightarrow> (Responded r, s')
      | (Inl error, s') \<Rightarrow>
          (Responded \<lparr>status = 500,
                      body = JObj [(''error'', JStr ''Internal server error during authentication.''),
                                   (''details'', JStr (message error))]\<rparr>,
           \<lparr>world = world s', trace = trace s' @ [EvLog error]\<rparr>))"
  using assms by (simp add: handler_def)

lemma writes_append: "writes (xs @ ys) = writes xs @ writes ys"
  by (induction xs rule: writes.induct) (auto split: option.splits)

lemma register_201:
  assumes "register env cfg username password s = (Inr r, s')" and "status r = 201"
  shows "\<exists>name g h uid w.
           to_string username = Inr name
         \<and> trace s' = trace s @
             [EvFetch (kv_url cfg (user_path name)) (kv_options cfg ''GET'' JNull) g,
              EvHash password 10 (Inr h),
              EvUUID uid,
              EvFetch (kv_url cfg (user_path name))
                (kv_options cfg ''SET'' (JObj [(''userId'', JStr uid), (''hashedPassword'', JStr h)])) w]
         \<and> body r = JObj [(''message'', JStr ''User registered successfully.''), (''userId'', JStr uid)]"
  using assms
  by (auto simp: register_def kvRequest_eq user_path_def log_event_def Let_def
      split: sum.splits prod.splits if_splits)

lemmas scenario =
  alice_def post_def credentials_def destructure_def mem_env_def mem_fetch_def hasher_hash_def
  hasher_verify_def digest_def plain_def example_uuid_def kv_url_def kv_options_def user_path_def configured_def
  unconfigured_def registered_def alice_record_def start_def empty_world_def error_body_def
  required_reply_def invalid_action_reply_def

section \<open>Validation of the request\<close>




text \<open>
  C5. For every POST request with a truthy (for a string: non-empty) username and
  password whose action is absent or anything other than the strings register and login,
  the handler answers 400 with a message that begins "Invalid action specified", and
  calls nothing: the world and the history of calls are unchanged.
\<close>

theorem invalid_action_rejected:
  assumes "req_method req = ''POST''"
    and "destructure (req_body req) = Inr (action, username, password)"
    and "truthy username" and "truthy password"
    and "action \<noteq> JStr ''register''" and "action \<noteq> JStr ''login''"
  shows "handler env cfg req s = (Responded invalid_action_reply, s)
         \<and> status invalid_action_reply = 400
         \<and> (\<exists>rest. body invalid_action_reply = error_body (''Invalid action specified'' @ rest))"
proof -
  have "handler env cfg req s = (Responded invalid_action_reply, s)"
    using assms by (simp add: handler_post dispatch_def invalid_action_reply_def)
  moreover have "status invalid_action_reply = 400"
    by (simp add: invalid_action_reply_def)
  moreover have \<open>body invalid_action_reply =
      error_body (''Invalid action specified'' @ ''. Use "register" or "login".'')\<close>
    by (simp add: invalid_action_reply_def)
  then have "\<exists>rest. body invalid_action_reply = error_body (''Invalid action specified'' @ rest)"
    by (rule exI)
  ultimately show ?thesis by blast
qed

text \<open>
  An unknown action, and an absent one.
\<close>

theorem invalid_action_rejected_witness:
  "handler mem_env configured (alice ''logout'' ''s3cret'') registered
     = (Responded invalid_action_reply, registered)
   \<and> handler mem_env configured (post (JObj [(''username'', JStr ''alice''), (''password'', JStr ''s3cret'')])) registered
     = (Responded invalid_action_reply, registered)"
  using invalid_action_rejected
      [of "alice ''logout'' ''s3cret''" "JStr ''logout''" "JStr ''alice''" "JStr ''s3cret''"
          mem_env configured registered]
    invalid_action_rejected
      [of "post (JObj [(''username'', JStr ''alice''), (''password'', JStr ''s3cret'')])"
          JUndefined "JStr ''alice''" "JStr ''s3cret''" mem_env configured registered]
  by (simp add: alice_def post_def credentials_def destructure_def)




section \<open>Registration of a known user\<close>

text \<open>
  C1. For every register request whose username has a stored record, that is, the GET
  for the key users:<username> is answered with a result that is truthy (as every
  record, being an object, is), the handler answers 409 with
  \<^verbatim>\<open>{error: "User already exists."}\<close>. The GET is its only call: nothing is
  hashed and nothing is written, and the world is left as the GET left it. The password
  of the request has no part in this.
\<close>

theorem register_existing_user_conflict:
  assumes "req_method req = ''POST''"
    and "destructure (req_body req) = Inr (JStr ''register'', username, password)"
    and "truthy username" and "truthy password"
    and "to_string username = Inr name"
    and "fetch env (world s) (kv_url cfg (user_path name)) (kv_options cfg ''GET'' JNull)
           = (Inr response, w')"
    and "ok response" and "json response = Inr data"
    and "get_prop data ''result'' = Inr existing" and "truthy existing"
  shows "handler env cfg req s =
           (Responded \<lparr>status = 409, body = error_body ''User already exists.''\<rparr>,
            \<lparr>world = w',
             trace = trace s @ [EvFetch (kv_url cfg (user_path name))
                                        (kv_options cfg ''GET'' JNull) (Inr response)]\<rparr>)
         \<and> writes [EvFetch (kv_url cfg (user_path name))
                            (kv_options cfg ''GET'' JNull) (Inr response)] = []"
proof -
  have "register env cfg username password s =
          (Inr \<lparr>status = 409, body = error_body ''User already exists.''\<rparr>,
           \<lparr>world = w',
            trace = trace s @ [EvFetch (kv_url cfg (user_path name))
                                       (kv_options cfg ''GET'' JNull) (Inr response)]\<rparr>)"
    using assms(5-10)
    by (simp add: register_def kvRequest_eq kv_result_ok user_path_def log_event_def)
  then show ?thesis
    using assms(1-4) by (simp add: handler_post dispatch_def kv_options_def)
qed

text \<open>
  The second registration of alice, with another password.
\<close>

theorem register_existing_user_conflict_witness:
  "fetch mem_env (world registered) (kv_url configured (user_path ''alice''))
       (kv_options configured ''GET'' JNull)
     = (Inr \<lparr>ok = True, json = Inr (JObj [(''result'', alice_record)])\<rparr>, world registered)
   \<and> handler mem_env configured (alice ''register'' ''other'') registered =
       (Responded \<lparr>status = 409, body = error_body ''User already exists.''\<rparr>,
        \<lparr>world = world registered,
         trace = [EvFetch ''https://kv.example/users:alice''
                    (kv_options configured ''GET'' JNull)
                    (Inr \<lparr>ok = True, json = Inr (JObj [(''result'', alice_record)])\<rparr>)]\<rparr>)"
proof -
  have f: "fetch mem_env (world registered) (kv_url configured (user_path ''alice''))
       (kv_options configured ''GET'' JNull)
     = (Inr \<lparr>ok = True, json = Inr (JObj [(''result'', alice_record)])\<rparr>, world registered)"
    by (simp add: scenario)
  have "handler mem_env configured (alice ''register'' ''other'') registered =
       (Responded \<lparr>status = 409, body = error_body ''User already exists.''\<rparr>,
        \<lparr>world = world registered,
         trace = trace registered @ [EvFetch (kv_url configured (user_path ''alice''))
                    (kv_options configured ''GET'' JNull)
                    (Inr \<lparr>ok = True, json = Inr (JObj [(''result'', alice_record)])\<rparr>)]\<rparr>)"
    using register_existing_user_conflict
      [of "alice ''register'' ''other''" "JStr ''alice''" "JStr ''other''" "''alice''"
          mem_env registered configured
          "\<lparr>ok = True, json = Inr (JObj [(''result'', alice_record)])\<rparr>" "world registered"
          "JObj [(''result'', alice_record)]" alice_record, OF _ _ _ _ _ f]
    by (simp add: alice_def post_def destructure_credentials alice_record_def)
  then show ?thesis using f by (simp add: registered_def kv_url_def user_path_def configured_def)
qed

section \<open>Failed logins\<close>



section \<open>Login after registration\<close>

lemma handler_replied:
  assumes "req_method req = ''POST''"
    and "destructure (req_body req) = Inr (action, username, password)"
    and "handler env cfg req s = (Responded r, s')"
    and "status r \<noteq> 400" and "status r \<noteq> 500"
  shows "truthy username \<and> truthy password \<and> dispatch env cfg action username password s = (Inr r, s')"
proof -
  have t: "truthy username \<and> truthy password"
    using assms by (auto simp: handler_def split: if_splits)
  then show ?thesis
    using assms(3-5) handler_post [OF assms(1,2), of env cfg s]
    by (cases "dispatch env cfg action username password s")
       (auto split: sum.splits)
qed

lemma last_written_snoc:
  "fo_body options = Some v \<Longrightarrow>
   last_written (evs @ [EvFetch url options r]) url = Some v"
  by (simp add: last_written_def writes_append)

lemma login_200:
  assumes "to_string username = Inr name"
    and "fetch env (world s) (kv_url cfg (user_path name)) (kv_options cfg ''GET'' JNull)
           = (Inr response, w)"
    and "ok response" and "json response = Inr data"
    and "get_prop data ''result'' = Inr stored" and "truthy stored"
    and "get_prop stored ''hashedPassword'' = Inr h"
    and "bcrypt_compare env password h = Inr True"
    and "get_prop stored ''userId'' = Inr uid"
    and "jwt_sign env w (JObj [(''userId'', uid), (''username'', username)]) (JWT_SECRET cfg)
           (JObj [(''expiresIn'', JStr ''1h'')]) = (Inr token, w')"
  shows "fst (login env cfg username password s) =
           Inr \<lparr>status = 200,
                body = JObj [(''message'', JStr ''Login successful.''), (''token'', token),
                             (''userId'', uid)]\<rparr>"
  using assms
  by (simp add: login_def kvRequest_eq kv_result_ok user_path_def log_event_def Let_def)

lemmas run = handler_def dispatch_def register_def login_def kvRequest_def Let_def
  issuer_sign_def expires_in_def issue_def digits_of.simps digit_char_def last_written_def

lemma alice_registers:
  "fst (handler mem_env (configured\<lparr>JWT_SECRET := k\<rparr>) (alice ''register'' ''s3cret'') start)
     = Responded \<lparr>status = 201,
                  body = JObj [(''message'', JStr ''User registered successfully.''),
                               (''userId'', JStr ''user-0'')]\<rparr>"
  "world (snd (handler mem_env (configured\<lparr>JWT_SECRET := k\<rparr>) (alice ''register'' ''s3cret'') start))
     = world registered"
  "last_written
     (trace (snd (handler mem_env (configured\<lparr>JWT_SECRET := k\<rparr>) (alice ''register'' ''s3cret'') start)))
     ''https://kv.example/users:alice'' = Some alice_record"
  by (simp_all add: run scenario)

lemma alice_is_stored:
  "fetch mem_env (world registered) (kv_url (configured\<lparr>JWT_SECRET := k\<rparr>) (user_path ''alice''))
       (kv_options (configured\<lparr>JWT_SECRET := k\<rparr>) ''GET'' JNull)
     = (Inr \<lparr>ok = True, json = Inr (JObj [(''result'', alice_record)])\<rparr>, world registered)"
  by (simp add: scenario)

lemma configured_secret: "configured\<lparr>JWT_SECRET := Some ''signing-key''\<rparr> = configured"
  by (simp add: configured_def)

text \<open>
  C2, as amended. If a register request is answered 201, the store then answers the GET
  for users:<username> with the value that this registration wrote last under the key
  (read-after-write, nothing else having touched the key), \<^verbatim>\<open>bcrypt.compare\<close>
  accepts the password against the stored hash, and \<^verbatim>\<open>jwt.sign\<close> returns a token,
  then the login with the same username and password is answered 200 with that token and
  with the userId that the registration returned. The username and the password are
  truthy, as the 201 shows.
\<close>

theorem login_after_register:
  assumes "req_method reqR = ''POST''"
    and "destructure (req_body reqR) = Inr (JStr ''register'', username, password)"
    and "handler env cfg reqR s = (Responded r1, s1)" and "status r1 = 201"
    and "req_method reqL = ''POST''"
    and "destructure (req_body reqL) = Inr (JStr ''login'', username, password)"
    and "to_string username = Inr name"
    and "fetch env (world s2) (kv_url cfg (user_path name)) (kv_options cfg ''GET'' JNull)
           = (Inr response, w2)"
    and "ok response" and "json response = Inr data"
    and "get_prop data ''result'' = Inr stored"
    and "last_written (trace s1) (kv_url cfg (user_path name)) = Some stored"
    and "get_prop stored ''hashedPassword'' = Inr h"
    and "bcrypt_compare env password h = Inr True"
    and "get_prop stored ''userId'' = Inr uid"
    and "jwt_sign env w2 (JObj [(''userId'', uid), (''username'', username)]) (JWT_SECRET cfg)
           (JObj [(''expiresIn'', JStr ''1h'')]) = (Inr token, w3)"
  shows "fst (handler env cfg reqL s2) =
           Responded \<lparr>status = 200,
                      body = JObj [(''message'', JStr ''Login successful.''), (''token'', token),
                                   (''userId'', uid)]\<rparr>
         \<and> get_prop (body r1) ''userId'' = Inr uid"
proof -
  have reg: "truthy username \<and> truthy password
             \<and> dispatch env cfg (JStr ''register'') username password s = (Inr r1, s1)"
    using handler_replied [OF assms(1,2,3)] assms(4) by simp
  then have "register env cfg username password s = (Inr r1, s1)"
    by (simp add: dispatch_def)
  from register_201 [OF this assms(4)] assms(7)
  obtain g h0 uid0 w where
    tr: "trace s1 = trace s @
           [EvFetch (kv_url cfg (user_path name)) (kv_options cfg ''GET'' JNull) g,
            EvHash password 10 (Inr h0), EvUUID uid0,
            EvFetch (kv_url cfg (user_path name))
              (kv_options cfg ''SET'' (JObj [(''userId'', JStr uid0), (''hashedPassword'', JStr h0)])) w]"
    and b: "body r1 = JObj [(''message'', JStr ''User registered successfully.''), (''userId'', JStr uid0)]"
    by auto
  have "last_written (trace s1) (kv_url cfg (user_path name))
          = Some (JObj [(''userId'', JStr uid0), (''hashedPassword'', JStr h0)])"
    unfolding tr
    using last_written_snoc
      [of "kv_options cfg ''SET'' (JObj [(''userId'', JStr uid0), (''hashedPassword'', JStr h0)])"
          "JObj [(''userId'', JStr uid0), (''hashedPassword'', JStr h0)]"
          "trace s @
           [EvFetch (kv_url cfg (user_path name)) (kv_options cfg ''GET'' JNull) g,
            EvHash password 10 (Inr h0), EvUUID uid0]"
          "kv_url cfg (user_path name)" w]
    by (simp add: kv_options_def)
  then have st: "stored = JObj [(''userId'', JStr uid0), (''hashedPassword'', JStr h0)]"
    using assms(12) by simp
  then have u: "uid = JStr uid0" and "truthy stored"
    using assms(15) by auto
  have "fst (login env cfg username password s2) =
           Inr \<lparr>status = 200,
                body = JObj [(''message'', JStr ''Login successful.''), (''token'', token),
                             (''userId'', uid)]\<rparr>"
    using login_200 [OF assms(7-11) \<open>truthy stored\<close> assms(13-16)] .
  then have "fst (handler env cfg reqL s2) =
           Responded \<lparr>status = 200,
                      body = JObj [(''message'', JStr ''Login successful.''), (''token'', token),
                                   (''userId'', uid)]\<rparr>"
    using reg handler_post [OF assms(5,6), of env cfg s2]
    by (cases "login env cfg username password s2") (auto simp: dispatch_def)
  then show ?thesis using b u by simp
qed

text \<open>
  alice registers and logs in, in the configured environment.
\<close>

theorem login_after_register_witness:
  "fst (handler mem_env configured (alice ''register'' ''s3cret'') start)
     = Responded \<lparr>status = 201,
                  body = JObj [(''message'', JStr ''User registered successfully.''),
                               (''userId'', JStr ''user-0'')]\<rparr>
   \<and> bcrypt_compare mem_env (JStr ''s3cret'') (JStr ''0$s3cret'') = Inr True
   \<and> fst (handler mem_env configured (alice ''login'' ''s3cret'')
           (snd (handler mem_env configured (alice ''register'' ''s3cret'') start)))
     = Responded \<lparr>status = 200,
                  body = JObj [(''message'', JStr ''Login successful.''),
                               (''token'', issue 1000 ''signing-key''
                                   [(''userId'', JStr ''user-0''), (''username'', JStr ''alice'')] 3600),
                               (''userId'', JStr ''user-0'')]\<rparr>"
proof -
  let ?reg = "handler mem_env configured (alice ''register'' ''s3cret'') start"
  let ?r1 = "\<lparr>status = 201,
              body = JObj [(''message'', JStr ''User registered successfully.''),
                           (''userId'', JStr ''user-0'')]\<rparr>"
  have r: "?reg = (Responded ?r1, snd ?reg)"
    using alice_registers(1) [of "Some ''signing-key''"]
    by (simp add: configured_secret prod_eq_iff)
  have w: "world (snd ?reg) = world registered"
    using alice_registers(2) [of "Some ''signing-key''"] by (simp add: configured_secret)
  have l: "last_written (trace (snd ?reg)) (kv_url configured (user_path ''alice'')) = Some alice_record"
    using alice_registers(3) [of "Some ''signing-key''"]
    by (simp add: configured_secret kv_url_def user_path_def configured_def)
  have f: "fetch mem_env (world (snd ?reg)) (kv_url configured (user_path ''alice''))
             (kv_options configured ''GET'' JNull)
           = (Inr \<lparr>ok = True, json = Inr (JObj [(''result'', alice_record)])\<rparr>, world registered)"
    using alice_is_stored [of "Some ''signing-key''"] w by (simp add: configured_secret)
  have c: "bcrypt_compare mem_env (JStr ''s3cret'') (JStr ''0$s3cret'') = Inr True"
    by (simp add: mem_env_def hasher_verify_def digest_def plain_def)
  have j: "jwt_sign mem_env (world registered)
             (JObj [(''userId'', JStr ''user-0''), (''username'', JStr ''alice'')])
             (JWT_SECRET configured) (JObj [(''expiresIn'', JStr ''1h'')])
           = (Inr (issue 1000 ''signing-key''
                    [(''userId'', JStr ''user-0''), (''username'', JStr ''alice'')] 3600),
              world registered)"
    by (simp add: mem_env_def issuer_sign_def expires_in_def configured_def registered_def)
  have "fst (handler mem_env configured (alice ''login'' ''s3cret'') (snd ?reg))
     = Responded \<lparr>status = 200,
                  body = JObj [(''message'', JStr ''Login successful.''),
                               (''token'', issue 1000 ''signing-key''
                                   [(''userId'', JStr ''user-0''), (''username'', JStr ''alice'')] 3600),
                               (''userId'', JStr ''user-0'')]\<rparr>"
    using login_after_register
      [of "alice ''register'' ''s3cret''" "JStr ''alice''" "JStr ''s3cret''" mem_env configured
          start ?r1 "snd ?reg" "alice ''login'' ''s3cret''" "''alice''" "snd ?reg"
          "\<lparr>ok = True, json = Inr (JObj [(''result'', alice_record)])\<rparr>" "world registered"
          "JObj [(''result'', alice_record)]" alice_record "JStr ''0$s3cret''" "JStr ''user-0''"
          "issue 1000 ''signing-key'' [(''userId'', JStr ''user-0''), (''username'', JStr ''alice'')] 3600"
          "world registered",
       OF _ _ r _ _ _ _ f _ _ _ l _ c _ j]
    by (simp add: alice_def post_def destructure_credentials alice_record_def)
  then show ?thesis
    using alice_registers(1) [of "Some ''signing-key''"] c by (simp add: configured_secret)
qed

text \<open>
  C2 as stated fails where no signing secret is configured: the registration succeeds,
  the store returns the record it wrote, the comparison accepts the password, and the
  login is answered 500, because the signer refuses to sign without a key.
\<close>

theorem login_without_signing_secret_counterexample:
  "fst (handler mem_env (configured\<lparr>JWT_SECRET := None\<rparr>) (alice ''register'' ''s3cret'') start)
     = Responded \<lparr>status = 201,
                  body = JObj [(''message'', JStr ''User registered successfully.''),
                               (''userId'', JStr ''user-0'')]\<rparr>
   \<and> last_written
        (trace (snd (handler mem_env (configured\<lparr>JWT_SECRET := None\<rparr>) (alice ''register'' ''s3cret'') start)))
        ''https://kv.example/users:alice''
       = Some (JObj [(''userId'', JStr ''user-0''), (''hashedPassword'', JStr ''0$s3cret'')])
   \<and> fst (fetch mem_env
            (world (snd (handler mem_env (configured\<lparr>JWT_SECRET := None\<rparr>) (alice ''register'' ''s3cret'') start)))
            ''https://kv.example/users:alice''
            (kv_options (configured\<lparr>JWT_SECRET := None\<rparr>) ''GET'' JNull))
       = Inr \<lparr>ok = True,
              json = Inr (JObj [(''result'',
                        JObj [(''userId'', JStr ''user-0''), (''hashedPassword'', JStr ''0$s3cret'')])])\<rparr>
   \<and> bcrypt_compare mem_env (JStr ''s3cret'') (JStr ''0$s3cret'') = Inr True
   \<and> fst (handler mem_env (configured\<lparr>JWT_SECRET := None\<rparr>) (alice ''login'' ''s3cret'')
           (snd (handler mem_env (configured\<lparr>JWT_SECRET := None\<rparr>) (alice ''register'' ''s3cret'') start)))
     = Responded \<lparr>status = 500,
                  body = JObj [(''error'', JStr ''Internal server error during authentication.''),
                               (''details'', JStr ''secretOrPrivateKey must have a value'')]\<rparr>"
  by (simp add: run scenario)

section \<open>The issued token\<close>

lemma truthy_get_prop: "truthy v \<Longrightarrow> \<exists>x. get_prop v k = Inr x"
  by (cases v) auto

lemma issuer_verify_issue:
  "issuer_verify t key (issue now secret [(''userId'', u), (''username'', n)] ttl) =
     (if key = secret \<and> t \<le> now + ttl then Some (u, n) else None)"
  by (simp add: issuer_verify_def issue_def)

text \<open>
  C6, with the token issuer modelled from the spec. A login answered 200 carries the
  token that the issuer makes of the payload the handler passes: exactly the userId of
  the record that the store returned and the username of the request, with the time of
  issue and an expiry one hour (3600 seconds) later. Verifying that token at any time
  after the expiry fails, under every key; up to the expiry, under the signing key, it
  gives back the userId and the username.
\<close>

theorem issued_token_payload_and_expiry:
  assumes "req_method req = ''POST''"
    and "destructure (req_body req) = Inr (JStr ''login'', username, password)"
    and "handler env cfg req s = (Responded r, s')" and "status r = 200"
    and "to_string username = Inr name"
    and "fetch env (world s) (kv_url cfg (user_path name)) (kv_options cfg ''GET'' JNull)
           = (Inr response, w)"
    and "json response = Inr data" and "get_prop data ''result'' = Inr stored"
    and "\<forall>w payload secret options.
           jwt_sign env w payload secret options = (issuer_sign (now w) payload secret options, w)"
  shows "\<exists>secret userId token.
           JWT_SECRET cfg = Some secret
         \<and> get_prop stored ''userId'' = Inr userId
         \<and> body r = JObj [(''message'', JStr ''Login successful.''), (''token'', token),
                          (''userId'', userId)]
         \<and> token = issue (now w) secret [(''userId'', userId), (''username'', username)] 3600
         \<and> get_prop token ''payload'' =
               Inr (JObj [(''userId'', userId), (''username'', username),
                          (''issuedAt'', JNum (now w)), (''expiresAt'', JNum (now w + 3600))])
         \<and> (\<forall>t key. now w + 3600 < t \<longrightarrow> issuer_verify t key token = None)
         \<and> (\<forall>t. t \<le> now w + 3600 \<longrightarrow> issuer_verify t secret token = Some (userId, username))"
proof -
  have "dispatch env cfg (JStr ''login'') username password s = (Inr r, s')"
    using handler_replied [OF assms(1,2,3)] assms(4) by simp
  then have l: "login env cfg username password s = (Inr r, s')"
    by (simp add: dispatch_def)
  have k: "kv_result (Inr response) = Inr data"
    using l assms(4-8)
    by (auto simp: login_def kvRequest_eq user_path_def Let_def kv_result_def
        split: sum.splits if_splits)
  have t: "truthy stored"
    using l k assms(4-8)
    by (auto simp: login_def kvRequest_eq user_path_def Let_def split: sum.splits if_splits)
  obtain userId h where u: "get_prop stored ''userId'' = Inr userId"
    and h: "get_prop stored ''hashedPassword'' = Inr h"
    using truthy_get_prop [OF t] by blast
  have c: "bcrypt_compare env password h = Inr True"
    using l k t u h assms(4-8)
    by (auto simp: login_def kvRequest_eq user_path_def Let_def split: sum.splits if_splits)
  let ?sign = "issuer_sign (now w) (JObj [(''userId'', userId), (''username'', username)])
                 (JWT_SECRET cfg) (JObj [(''expiresIn'', JStr ''1h'')])"
  have b: "\<exists>token. ?sign = Inr token
            \<and> body r = JObj [(''message'', JStr ''Login successful.''), (''token'', token),
                             (''userId'', userId)]"
    using l k t u h c assms(4-9)
    by (auto simp: login_def kvRequest_eq user_path_def Let_def log_event_def
        split: sum.splits if_splits)
  then obtain token where s: "?sign = Inr token"
    and body: "body r = JObj [(''message'', JStr ''Login successful.''), (''token'', token),
                             (''userId'', userId)]"
    by blast
  from s obtain secret where sec: "JWT_SECRET cfg = Some secret"
    and tok: "token = issue (now w) secret [(''userId'', userId), (''username'', username)] 3600"
    by (auto simp: issuer_sign_def expires_in_def split: option.splits)
  have p: "get_prop token ''payload'' =
               Inr (JObj [(''userId'', userId), (''username'', username),
                          (''issuedAt'', JNum (now w)), (''expiresAt'', JNum (now w + 3600))])"
    by (simp add: tok issue_def)
  show ?thesis
    using sec u body tok p by (simp add: issuer_verify_issue)
qed

text \<open>
  The login of alice at time 1000: the token expires at 4600.
\<close>

theorem issued_token_payload_and_expiry_witness:
  "get_prop (body (\<lparr>status = 200,
        body = JObj [(''message'', JStr ''Login successful.''),
                     (''token'', issue 1000 ''signing-key''
                         [(''userId'', JStr ''user-0''), (''username'', JStr ''alice'')] 3600),
                     (''userId'', JStr ''user-0'')]\<rparr>)) ''token''
     = Inr (JObj [(''payload'', JObj [(''userId'', JStr ''user-0''), (''username'', JStr ''alice''),
                                      (''issuedAt'', JNum 1000), (''expiresAt'', JNum 4600)]),
                  (''signature'', JStr ''signing-key'')])
   \<and> fst (handler mem_env configured (alice ''login'' ''s3cret'') registered)
     = Responded \<lparr>status = 200,
        body = JObj [(''message'', JStr ''Login successful.''),
                     (''token'', issue 1000 ''signing-key''
                         [(''userId'', JStr ''user-0''), (''username'', JStr ''alice'')] 3600),
                     (''userId'', JStr ''user-0'')]\<rparr>
   \<and> issuer_verify 4601 ''signing-key''
         (issue 1000 ''signing-key'' [(''userId'', JStr ''user-0''), (''username'', JStr ''alice'')] 3600)
       = None
   \<and> issuer_verify 4600 ''signing-key''
         (issue 1000 ''signing-key'' [(''userId'', JStr ''user-0''), (''username'', JStr ''alice'')] 3600)
       = Some (JStr ''user-0'', JStr ''alice'')"
proof -
  let ?r = "\<lparr>status = 200,
        body = JObj [(''message'', JStr ''Login successful.''),
                     (''token'', issue 1000 ''signing-key''
                         [(''userId'', JStr ''user-0''), (''username'', JStr ''alice'')] 3600),
                     (''userId'', JStr ''user-0'')]\<rparr>"
  let ?run = "handler mem_env configured (alice ''login'' ''s3cret'') registered"
  have e: "fst ?run = Responded ?r"
    by (simp add: run scenario)
  then have h: "?run = (Responded ?r, snd ?run)"
    by (simp add: prod_eq_iff)
  have j: "\<forall>w payload secret options.
           jwt_sign mem_env w payload secret options = (issuer_sign (clock w) payload secret options, w)"
    by (simp add: mem_env_def)
  have "\<exists>secret userId token.
           JWT_SECRET configured = Some secret
         \<and> get_prop alice_record ''userId'' = Inr userId
         \<and> body ?r = JObj [(''message'', JStr ''Login successful.''), (''token'', token),
                          (''userId'', userId)]
         \<and> token = issue (clock (world registered)) secret
                      [(''userId'', userId), (''username'', JStr ''alice'')] 3600
         \<and> get_prop token ''payload'' =
               Inr (JObj [(''userId'', userId), (''username'', JStr ''alice''),
                          (''issuedAt'', JNum (clock (world registered))),
                          (''expiresAt'', JNum (clock (world registered) + 3600))])
         \<and> (\<forall>t key. clock (world registered) + 3600 < t \<longrightarrow> issuer_verify t key token = None)
         \<and> (\<forall>t. t \<le> clock (world registered) + 3600 \<longrightarrow>
                issuer_verify t secret token = Some (userId, JStr ''alice''))"
    using issued_token_payload_and_expiry
      [of "alice ''login'' ''s3cret''" "JStr ''alice''" "JStr ''s3cret''" mem_env configured
          registered ?r "snd ?run" "''alice''"
          "\<lparr>ok = True, json = Inr (JObj [(''result'', alice_record)])\<rparr>" "world registered"
          "JObj [(''result'', alice_record)]" alice_record clock,
       OF _ _ h _ _ _ _ _ j]
      alice_is_stored [of "Some ''signing-key''"]
    by (simp add: alice_def post_def destructure_credentials configured_secret)
  then show ?thesis
    using e by (auto simp: configured_def registered_def alice_record_def issue_def)
qed

section \<open>Configuration that is not set\<close>



section \<open>What is stored and what is returned\<close>

lemma register_effects:
  assumes "register env cfg username password s = (res, s')"
  shows "\<exists>evs. trace s' = trace s @ evs
     \<and> (writes evs = [] \<or>
         (\<exists>name uid h. to_string username = Inr name
            \<and> writes evs = [(kv_url cfg (user_path name),
                             JObj [(''userId'', JStr uid), (''hashedPassword'', JStr h)])]
            \<and> EvUUID uid \<in> set evs \<and> EvHash password 10 (Inr h) \<in> set evs))
     \<and> (\<forall>r. res = Inr r \<longrightarrow>
           (r = \<lparr>status = 409, body = error_body ''User already exists.''\<rparr>) \<or>
           (\<exists>uid. r = \<lparr>status = 201,
                         body = JObj [(''message'', JStr ''User registered successfully.''),
                                      (''userId'', JStr uid)]\<rparr>
                  \<and> EvUUID uid \<in> set evs))"
  using assms
  by (auto simp: register_def kvRequest_eq user_path_def log_event_def Let_def kv_options_def
      split: sum.splits prod.splits if_splits)

lemma login_effects:
  assumes "login env cfg username password s = (res, s')"
  shows "\<exists>evs. trace s' = trace s @ evs
     \<and> writes evs = []
     \<and> (\<forall>r. res = Inr r \<longrightarrow>
           (r = \<lparr>status = 401, body = error_body ''Invalid username or password.''\<rparr>) \<or>
           (\<exists>token uid. r = \<lparr>status = 200,
                         body = JObj [(''message'', JStr ''Login successful.''),
                                      (''token'', token), (''userId'', uid)]\<rparr>
                  \<and> EvSign (JObj [(''userId'', uid), (''username'', username)]) (JWT_SECRET cfg)
                        (JObj [(''expiresIn'', JStr ''1h'')]) (Inr token) \<in> set evs))"
  using assms
  by (auto simp: login_def kvRequest_eq user_path_def log_event_def Let_def kv_options_def
      split: sum.splits prod.splits if_splits)

lemma dispatch_effects:
  assumes "dispatch env cfg action username password s = (res, s')"
  shows "\<exists>evs. trace s' = trace s @ evs
     \<and> (writes evs = [] \<or>
         (\<exists>name uid h. to_string username = Inr name
            \<and> writes evs = [(kv_url cfg (user_path name),
                             JObj [(''userId'', JStr uid), (''hashedPassword'', JStr h)])]
            \<and> EvUUID uid \<in> set evs \<and> EvHash password 10 (Inr h) \<in> set evs))
     \<and> (\<forall>r. res = Inr r \<longrightarrow>
           r = invalid_action_reply
         \<or> r = \<lparr>status = 409, body = error_body ''User already exists.''\<rparr>
         \<or> r = \<lparr>status = 401, body = error_body ''Invalid username or password.''\<rparr>
         \<or> (\<exists>uid. r = \<lparr>status = 201,
                         body = JObj [(''message'', JStr ''User registered successfully.''),
                                      (''userId'', JStr uid)]\<rparr>
                  \<and> EvUUID uid \<in> set evs)
         \<or> (\<exists>token uid. r = \<lparr>status = 200,
                         body = JObj [(''message'', JStr ''Login successful.''),
                                      (''token'', token), (''userId'', uid)]\<rparr>
                  \<and> EvSign (JObj [(''userId'', uid), (''username'', username)]) (JWT_SECRET cfg)
                        (JObj [(''expiresIn'', JStr ''1h'')]) (Inr token) \<in> set evs))"
proof -
  consider (reg) "action = JStr ''register''"
    | (log) "action \<noteq> JStr ''register''" "action = JStr ''login''"
    | (other) "action \<noteq> JStr ''register''" "action \<noteq> JStr ''login''"
    by blast
  then show ?thesis
  proof cases
    case reg
    then have "register env cfg username password s = (res, s')"
      using assms by (simp add: dispatch_def)
    from register_effects [OF this] obtain evs where
      "trace s' = trace s @ evs"
      "writes evs = [] \<or>
         (\<exists>name uid h. to_string username = Inr name
            \<and> writes evs = [(kv_url cfg (user_path name),
                             JObj [(''userId'', JStr uid), (''hashedPassword'', JStr h)])]
            \<and> EvUUID uid \<in> set evs \<and> EvHash password 10 (Inr h) \<in> set evs)"
      "\<forall>r. res = Inr r \<longrightarrow>
           (r = \<lparr>status = 409, body = error_body ''User already exists.''\<rparr>) \<or>
           (\<exists>uid. r = \<lparr>status = 201,
                         body = JObj [(''message'', JStr ''User registered successfully.''),
                                      (''userId'', JStr uid)]\<rparr>
                  \<and> EvUUID uid \<in> set evs)"
      by (elim exE conjE)
    then show ?thesis
      by (intro exI [of _ evs] conjI allI impI) (assumption, assumption, fast)
  next
    case log
    then have "login env cfg username password s = (res, s')"
      using assms by (simp add: dispatch_def)
    from login_effects [OF this] obtain evs where
      "trace s' = trace s @ evs"
      "writes evs = []"
      "\<forall>r. res = Inr r \<longrightarrow>
           (r = \<lparr>status = 401, body = error_body ''Invalid username or password.''\<rparr>) \<or>
           (\<exists>token uid. r = \<lparr>status = 200,
                         body = JObj [(''message'', JStr ''Login successful.''),
                                      (''token'', token), (''userId'', uid)]\<rparr>
                  \<and> EvSign (JObj [(''userId'', uid), (''username'', username)]) (JWT_SECRET cfg)
                        (JObj [(''expiresIn'', JStr ''1h'')]) (Inr token) \<in> set evs)"
      by (elim exE conjE)
    then show ?thesis
      by (intro exI [of _ evs] conjI allI impI) (assumption, simp, fast)
  next
    case other
    then have "res = Inr invalid_action_reply" and "s' = s"
      using assms by (auto simp: dispatch_def invalid_action_reply_def)
    then show ?thesis by simp
  qed
qed

text \<open>
  C9. Whatever the environment and the request, the handler sends at most one value to
  the store, and that value is \<^verbatim>\<open>{userId, hashedPassword}\<close>, sent to the address of
  the key users:<username>, where userId is what \<^verbatim>\<open>randomUUID\<close> returned and
  hashedPassword is what \<^verbatim>\<open>bcrypt.hash(password, 10)\<close> returned. The body of a 201
  holds a message and that userId and nothing else; the body of a 200 holds a message,
  the token that \<^verbatim>\<open>jwt.sign\<close> returned for \<^verbatim>\<open>{userId, username}\<close>, and the
  userId, and nothing else. Every other body is one of the fixed error messages, or the
  error message of a 500, whose details are the message of the error that was thrown
  and logged. The password is a component of none of them.
\<close>

theorem password_not_stored_or_returned:
  assumes "destructure (req_body req) = Inr (action, username, password)"
    and "handler env cfg req s = (out, s')"
  shows "\<exists>evs. trace s' = trace s @ evs
     \<and> (writes evs = [] \<or>
         (\<exists>name uid h. to_string username = Inr name
            \<and> writes evs = [(kv_url cfg (user_path name),
                             JObj [(''userId'', JStr uid), (''hashedPassword'', JStr h)])]
            \<and> EvUUID uid \<in> set evs \<and> EvHash password 10 (Inr h) \<in> set evs))
     \<and> (\<forall>r. out = Responded r \<longrightarrow>
           r = \<lparr>status = 405, body = error_body ''Method Not Allowed''\<rparr>
         \<or> r = required_reply
         \<or> r = invalid_action_reply
         \<or> r = \<lparr>status = 409, body = error_body ''User already exists.''\<rparr>
         \<or> r = \<lparr>status = 401, body = error_body ''Invalid username or password.''\<rparr>
         \<or> (\<exists>uid. r = \<lparr>status = 201,
                         body = JObj [(''message'', JStr ''User registered successfully.''),
                                      (''userId'', JStr uid)]\<rparr>
                  \<and> EvUUID uid \<in> set evs)
         \<or> (\<exists>token uid. r = \<lparr>status = 200,
                         body = JObj [(''message'', JStr ''Login successful.''),
                                      (''token'', token), (''userId'', uid)]\<rparr>
                  \<and> EvSign (JObj [(''userId'', uid), (''username'', username)]) (JWT_SECRET cfg)
                        (JObj [(''expiresIn'', JStr ''1h'')]) (Inr token) \<in> set evs)
         \<or> (\<exists>e. r = \<lparr>status = 500,
                       body = JObj [(''error'', JStr ''Internal server error during authentication.''),
                                    (''details'', JStr (message e))]\<rparr>
                  \<and> EvLog e \<in> set evs))"
proof -
  consider (other_method) "req_method req \<noteq> ''POST''"
    | (missing) "req_method req = ''POST''" "\<not> truthy username \<or> \<not> truthy password"
    | (served) "req_method req = ''POST''" "truthy username" "truthy password"
    by blast
  then show ?thesis
  proof cases
    case other_method
    then have "out = Responded \<lparr>status = 405, body = error_body ''Method Not Allowed''\<rparr>" "s' = s"
      using assms by (auto simp: handler_def)
    then show ?thesis
      by (intro exI [of _ "[]"] conjI allI impI) simp_all
  next
    case missing
    then have "out = Responded required_reply" "s' = s"
      using assms by (auto simp: handler_def required_reply_def)
    then show ?thesis
      by (intro exI [of _ "[]"] conjI allI impI) simp_all
  next
    case served
    obtain res s0 where d: "dispatch env cfg action username password s = (res, s0)"
      by (cases "dispatch env cfg action username password s")
    note h = handler_post [OF served(1) assms(1) served(2,3), of env cfg s]
    from dispatch_effects [OF d] obtain evs where
      t: "trace s0 = trace s @ evs"
      and w: "writes evs = [] \<or>
         (\<exists>name uid h. to_string username = Inr name
            \<and> writes evs = [(kv_url cfg (user_path name),
                             JObj [(''userId'', JStr uid), (''hashedPassword'', JStr h)])]
            \<and> EvUUID uid \<in> set evs \<and> EvHash password 10 (Inr h) \<in> set evs)"
      and r: "\<forall>r. res = Inr r \<longrightarrow>
           r = invalid_action_reply
         \<or> r = \<lparr>status = 409, body = error_body ''User already exists.''\<rparr>
         \<or> r = \<lparr>status = 401, body = error_body ''Invalid username or password.''\<rparr>
         \<or> (\<exists>uid. r = \<lparr>status = 201,
                         body = JObj [(''message'', JStr ''User registered successfully.''),
                                      (''userId'', JStr uid)]\<rparr>
                  \<and> EvUUID uid \<in> set evs)
         \<or> (\<exists>token uid. r = \<lparr>status = 200,
                         body = JObj [(''message'', JStr ''Login successful.''),
                                      (''token'', token), (''userId'', uid)]\<rparr>
                  \<and> EvSign (JObj [(''userId'', uid), (''username'', username)]) (JWT_SECRET cfg)
                        (JObj [(''expiresIn'', JStr ''1h'')]) (Inr token) \<in> set evs)"
      by (elim exE conjE)
    show ?thesis
    proof (cases res)
      case (Inr reply)
      from d h assms(2) Inr have o: "out = Responded reply" and s: "s' = s0"
        by simp_all
      have "trace s' = trace s @ evs"
        using t s by simp
      moreover note w
      moreover have "\<forall>r. out = Responded r \<longrightarrow>
           r = \<lparr>status = 405, body = error_body ''Method Not Allowed''\<rparr>
         \<or> r = required_reply
         \<or> r = invalid_action_reply
         \<or> r = \<lparr>status = 409, body = error_body ''User already exists.''\<rparr>
         \<or> r = \<lparr>status = 401, body = error_body ''Invalid username or password.''\<rparr>
         \<or> (\<exists>uid. r = \<lparr>status = 201,
                         body = JObj [(''message'', JStr ''User registered successfully.''),
                                      (''userId'', JStr uid)]\<rparr>
                  \<and> EvUUID uid \<in> set evs)
         \<or> (\<exists>token uid. r = \<lparr>status = 200,
                         body = JObj [(''message'', JStr ''Login successful.''),
                                      (''token'', token), (''userId'', uid)]\<rparr>
                  \<and> EvSign (JObj [(''userId'', uid), (''username'', username)]) (JWT_SECRET cfg)
                        (JObj [(''expiresIn'', JStr ''1h'')]) (Inr token) \<in> set evs)
         \<or> (\<exists>e. r = \<lparr>status = 500,
                       body = JObj [(''error'', JStr ''Internal server error during authentication.''),
                                    (''details'', JStr (message e))]\<rparr>
                  \<and> EvLog e \<in> set evs)"
      proof (intro allI impI)
        fix r0
        assume "out = Responded r0"
        then have "res = Inr r0"
          using o Inr by simp
        from r [rule_format, OF this] show
          "r0 = \<lparr>status = 405, body = error_body ''Method Not Allowed''\<rparr>
         \<or> r0 = required_reply
         \<or> r0 = invalid_action_reply
         \<or> r0 = \<lparr>status = 409, body = error_body ''User already exists.''\<rparr>
         \<or> r0 = \<lparr>status = 401, body = error_body ''Invalid username or password.''\<rparr>
         \<or> (\<exists>uid. r0 = \<lparr>status = 201,
                         body = JObj [(''message'', JStr ''User registered successfully.''),
                                      (''userId'', JStr uid)]\<rparr>
                  \<and> EvUUID uid \<in> set evs)
         \<or> (\<exists>token uid. r0 = \<lparr>status = 200,
                         body = JObj [(''message'', JStr ''Login successful.''),
                                      (''token'', token), (''userId'', uid)]\<rparr>
                  \<and> EvSign (JObj [(''userId'', uid), (''username'', username)]) (JWT_SECRET cfg)
                        (JObj [(''expiresIn'', JStr ''1h'')]) (Inr token) \<in> set evs)
         \<or> (\<exists>e. r0 = \<lparr>status = 500,
                       body = JObj [(''error'', JStr ''Internal server error during authentication.''),
                                    (''details'', JStr (message e))]\<rparr>
                  \<and> EvLog e \<in> set evs)"
          by (elim disjE exE conjE) simp_all
      qed
      ultimately show ?thesis
        by (intro exI [of _ evs] conjI)
    next
      case (Inl e)
      from d h assms(2) Inl t have o: "out = Responded \<lparr>status = 500,
                       body = JObj [(''error'', JStr ''Internal server error during authentication.''),
                                    (''details'', JStr (message e))]\<rparr>"
        and s: "trace s' = trace s @ (evs @ [EvLog e])"
        by auto
      have w': "writes (evs @ [EvLog e]) = writes evs"
        by (simp add: writes_append)
      have "writes (evs @ [EvLog e]) = [] \<or>
         (\<exists>name uid h. to_string username = Inr name
            \<and> writes (evs @ [EvLog e]) = [(kv_url cfg (user_path name),
                             JObj [(''userId'', JStr uid), (''hashedPassword'', JStr h)])]
            \<and> EvUUID uid \<in> set (evs @ [EvLog e]) \<and> EvHash password 10 (Inr h) \<in> set (evs @ [EvLog e]))"
        using w unfolding w' by auto
      moreover have "\<forall>r. out = Responded r \<longrightarrow>
           r = \<lparr>status = 405, body = error_body ''Method Not Allowed''\<rparr>
         \<or> r = required_reply
         \<or> r = invalid_action_reply
         \<or> r = \<lparr>status = 409, body = error_body ''User already exists.''\<rparr>
         \<or> r = \<lparr>status = 401, body = error_body ''Invalid username or password.''\<rparr>
         \<or> (\<exists>uid. r = \<lparr>status = 201,
                         body = JObj [(''message'', JStr ''User registered successfully.''),
                                      (''userId'', JStr uid)]\<rparr>
                  \<and> EvUUID uid \<in> set (evs @ [EvLog e]))
         \<or> (\<exists>token uid. r = \<lparr>status = 200,
                         body = JObj [(''message'', JStr ''Login successful.''),
                                      (''token'', token), (''userId'', uid)]\<rparr>
                  \<and> EvSign (JObj [(''userId'', uid), (''username'', username)]) (JWT_SECRET cfg)
                        (JObj [(''expiresIn'', JStr ''1h'')]) (Inr token) \<in> set (evs @ [EvLog e]))
         \<or> (\<exists>e'. r = \<lparr>status = 500,
                       body = JObj [(''error'', JStr ''Internal server error during authentication.''),
                                    (''details'', JStr (message e'))]\<rparr>
                  \<and> EvLog e' \<in> set (evs @ [EvLog e]))"
      proof (intro allI impI)
        fix r0
        assume "out = Responded r0"
        then have r0: "r0 = \<lparr>status = 500,
                       body = JObj [(''error'', JStr ''Internal server error during authentication.''),
                                    (''details'', JStr (message e))]\<rparr>"
          using o by simp
        have "\<exists>e'. r0 = \<lparr>status = 500,
                       body = JObj [(''error'', JStr ''Internal server error during authentication.''),
                                    (''details'', JStr (message e'))]\<rparr>
                  \<and> EvLog e' \<in> set (evs @ [EvLog e])"
          by (rule exI [of _ e]) (simp add: r0)
        then show "r0 = \<lparr>status = 405, body = error_body ''Method Not Allowed''\<rparr>
         \<or> r0 = required_reply
         \<or> r0 = invalid_action_reply
         \<or> r0 = \<lparr>status = 409, body = error_body ''User already exists.''\<rparr>
         \<or> r0 = \<lparr>status = 401, body = error_body ''Invalid username or password.''\<rparr>
         \<or> (\<exists>uid. r0 = \<lparr>status = 201,
                         body = JObj [(''message'', JStr ''User registered successfully.''),
                                      (''userId'', JStr uid)]\<rparr>
                  \<and> EvUUID uid \<in> set (evs @ [EvLog e]))
         \<or> (\<exists>token uid. r0 = \<lparr>status = 200,
                         body = JObj [(''message'', JStr ''Login successful.''),
                                      (''token'', token), (''userId'', uid)]\<rparr>
                  \<and> EvSign (JObj [(''userId'', uid), (''username'', username)]) (JWT_SECRET cfg)
                        (JObj [(''expiresIn'', JStr ''1h'')]) (Inr token) \<in> set (evs @ [EvLog e]))
         \<or> (\<exists>e'. r0 = \<lparr>status = 500,
                       body = JObj [(''error'', JStr ''Internal server error during authentication.''),
                                    (''details'', JStr (message e'))]\<rparr>
                  \<and> EvLog e' \<in> set (evs @ [EvLog e]))"
          by (intro disjI2)
      qed
      ultimately show ?thesis
        using s by (intro exI [of _ "evs @ [EvLog e]"] conjI)
    qed
  qed
qed

text \<open>
  The registration of alice.
\<close>

theorem password_not_stored_or_returned_witness:
  "\<exists>evs. trace (snd (handler mem_env configured (alice ''register'' ''s3cret'') start)) = trace start @ evs
     \<and> (writes evs = [] \<or>
         (\<exists>name uid h. to_string (JStr ''alice'') = Inr name
            \<and> writes evs = [(kv_url configured (user_path name),
                             JObj [(''userId'', JStr uid), (''hashedPassword'', JStr h)])]
            \<and> EvUUID uid \<in> set evs \<and> EvHash (JStr ''s3cret'') 10 (Inr h) \<in> set evs))
     \<and> (\<forall>r. fst (handler mem_env configured (alice ''register'' ''s3cret'') start) = Responded r \<longrightarrow>
           r = \<lparr>status = 405, body = error_body ''Method Not Allowed''\<rparr>
         \<or> r = required_reply
         \<or> r = invalid_action_reply
         \<or> r = \<lparr>status = 409, body = error_body ''User already exists.''\<rparr>
         \<or> r = \<lparr>status = 401, body = error_body ''Invalid username or password.''\<rparr>
         \<or> (\<exists>uid. r = \<lparr>status = 201,
                         body = JObj [(''message'', JStr ''User registered successfully.''),
                                      (''userId'', JStr uid)]\<rparr>
                  \<and> EvUUID uid \<in> set evs)
         \<or> (\<exists>token uid. r = \<lparr>status = 200,
                         body = JObj [(''message'', JStr ''Login successful.''),
                                      (''token'', token), (''userId'', uid)]\<rparr>
                  \<and> EvSign (JObj [(''userId'', uid), (''username'', JStr ''alice'')]) (JWT_SECRET configured)
                        (JObj [(''expiresIn'', JStr ''1h'')]) (Inr token) \<in> set evs)
         \<or> (\<exists>e. r = \<lparr>status = 500,
                       body = JObj [(''error'', JStr ''Internal server error during authentication.''),
                                    (''details'', JStr (message e))]\<rparr>
                  \<and> EvLog e \<in> set evs))"
  using password_not_stored_or_returned
    [of "alice ''register'' ''s3cret''" "JStr ''register''" "JStr ''alice''" "JStr ''s3cret''"
        mem_env configured start
        "fst (handler mem_env configured (alice ''register'' ''s3cret'') start)"
        "snd (handler mem_env configured (alice ''register'' ''s3cret'') start)"]
  by (simp add: alice_def post_def destructure_credentials)

section \<open>The hasher\<close>

lemma digit_char_cases:
  "digit_char d \<in> set ''0123456789''"
  unfolding digit_char_def by (rule nth_mem) simp

lemma digit_char_not_dollar: "digit_char d \<noteq> CHR ''$''"
  using digit_char_cases [of d] by auto

lemma dollar_not_in_digits: "CHR ''$'' \<notin> set (digits_of n)"
proof (induction n rule: digits_of.induct)
  case (1 n)
  show ?case
  proof (cases "n < 10")
    case True
    then show ?thesis
      using digit_char_not_dollar [of n] by (subst digits_of.simps) auto
  next
    case False
    then show ?thesis
      using "1.IH" digit_char_not_dollar [of n] by (subst digits_of.simps) auto
  qed
qed

lemma digit_char_inj: "digit_char a = digit_char b \<Longrightarrow> a mod 10 = b mod 10"
proof -
  have d: "distinct ''0123456789''" by simp
  assume "digit_char a = digit_char b"
  then have "''0123456789'' ! (a mod 10) = ''0123456789'' ! (b mod 10)"
    by (simp add: digit_char_def)
  then show ?thesis
    using nth_eq_iff_index_eq [OF d, of "a mod 10" "b mod 10"] by simp
qed

lemma digits_of_nonempty: "digits_of n \<noteq> []"
  by (subst digits_of.simps) simp

lemma digits_of_small: "n < 10 \<Longrightarrow> digits_of n = [digit_char n]"
  by (subst digits_of.simps) simp

lemma digits_of_large: "\<not> n < 10 \<Longrightarrow> digits_of n = digits_of (n div 10) @ [digit_char n]"
  by (subst digits_of.simps) simp

lemma digits_of_length: "length (digits_of n) = 1 \<longleftrightarrow> n < 10"
proof (cases "n < 10")
  case True
  then show ?thesis by (simp add: digits_of_small)
next
  case False
  have "length (digits_of (n div 10)) \<noteq> 0"
    using digits_of_nonempty [of "n div 10"] by simp
  then show ?thesis using False by (simp add: digits_of_large)
qed

lemma digits_of_inj: "digits_of n = digits_of m \<Longrightarrow> n = m"
proof (induction n arbitrary: m rule: digits_of.induct)
  case (1 n)
  have "length (digits_of n) = length (digits_of m)"
    using "1.prems" by (rule arg_cong)
  then have small: "n < 10 \<longleftrightarrow> m < 10"
    using digits_of_length [of n] digits_of_length [of m] by argo
  show ?case
  proof (cases "n < 10")
    case True
    then have "m < 10" using small by simp
    have "[digit_char n] = [digit_char m]"
      using "1.prems" unfolding digits_of_small [OF True] digits_of_small [OF \<open>m < 10\<close>] .
    then have "digit_char n = digit_char m"
      by simp
    then have "n mod 10 = m mod 10"
      by (rule digit_char_inj)
    with True \<open>m < 10\<close> show ?thesis by simp
  next
    case False
    then have "\<not> m < 10" using small by simp
    have "digits_of (n div 10) @ [digit_char n] = digits_of (m div 10) @ [digit_char m]"
      using "1.prems" unfolding digits_of_large [OF False] digits_of_large [OF \<open>\<not> m < 10\<close>] .
    then have a: "digits_of (n div 10) = digits_of (m div 10)"
      and b: "digit_char n = digit_char m"
      by simp_all
    have "n div 10 = m div 10"
      using "1.IH" [OF False a] .
    moreover have "n mod 10 = m mod 10"
      using digit_char_inj [OF b] .
    ultimately show ?thesis
      by (metis div_mult_mod_eq)
  qed
qed

lemma salt_of_digest:
  "takeWhile (\<lambda>c. c \<noteq> CHR ''$'') (digest f (digits_of n) plaintext) = digits_of n"
proof -
  have "\<And>c. c \<in> set (digits_of n) \<Longrightarrow> c \<noteq> CHR ''$''"
    using dollar_not_in_digits [of n] by blast
  then have "takeWhile (\<lambda>c. c \<noteq> CHR ''$'') (digits_of n @ ''$'' @ f (digits_of n) plaintext)
             = digits_of n @ takeWhile (\<lambda>c. c \<noteq> CHR ''$'') (''$'' @ f (digits_of n) plaintext)"
    by (rule takeWhile_append2)
  then show ?thesis
    by (simp add: digest_def)
qed

lemma digest_salt_inj:
  assumes "digest f (digits_of n) plaintext = digest f (digits_of m) plaintext"
  shows "n = m"
proof -
  have "takeWhile (\<lambda>c. c \<noteq> CHR ''$'') (digest f (digits_of n) plaintext)
        = takeWhile (\<lambda>c. c \<noteq> CHR ''$'') (digest f (digits_of m) plaintext)"
    using assms by (rule arg_cong)
  then have "digits_of n = digits_of m"
    by (simp only: salt_of_digest)
  then show ?thesis by (rule digits_of_inj)
qed

text \<open>
  C8, with the credential hasher modelled from the spec. For every plaintext, every
  one-way function and every state of the salt source, \<open>hash\<close> returns a digest,
  a second call on the same plaintext returns another digest, the two digests differ
  (each embeds its own salt), and \<open>verify\<close> accepts the plaintext against either.
\<close>

theorem hash_verifies_and_differs:
  "\<exists>d1 w1 d2 w2.
      hasher_hash f w (JStr plaintext) rounds = (Inr d1, w1)
    \<and> hasher_hash f w1 (JStr plaintext) rounds = (Inr d2, w2)
    \<and> hasher_verify f (JStr plaintext) (JStr d1) = Inr True
    \<and> hasher_verify f (JStr plaintext) (JStr d2) = Inr True
    \<and> d1 \<noteq> d2"
proof -
  let ?d1 = "digest f (digits_of (salts w)) plaintext"
  let ?w1 = "w\<lparr>salts := Suc (salts w)\<rparr>"
  let ?d2 = "digest f (digits_of (Suc (salts w))) plaintext"
  let ?w2 = "?w1\<lparr>salts := Suc (salts ?w1)\<rparr>"
  have 1: "hasher_hash f w (JStr plaintext) rounds = (Inr ?d1, ?w1)"
    by (simp add: hasher_hash_def)
  have 2: "hasher_hash f ?w1 (JStr plaintext) rounds = (Inr ?d2, ?w2)"
    by (simp add: hasher_hash_def)
  have 3: "hasher_verify f (JStr plaintext) (JStr ?d1) = Inr True"
    by (simp add: hasher_verify_def salt_of_digest)
  have 4: "hasher_verify f (JStr plaintext) (JStr ?d2) = Inr True"
    by (simp add: hasher_verify_def salt_of_digest)
  have 5: "?d1 \<noteq> ?d2"
    using digest_salt_inj [of f "salts w" plaintext "Suc (salts w)"] by auto
  from 1 2 3 4 5 show ?thesis by (intro exI conjI)
qed

end
